theory Spec2Isabelle
  imports Main
begin

section \<open>Data model of app.py\<close>

text \<open>
  The application is one Python script, \<^verbatim>\<open>StreamlitGeminiGPT/app.py\<close>, that Streamlit runs
  from top to bottom on every user event. Texts are modelled as \<^typ>\<open>string\<close>.

  An exception value stands for an instance of Python's \<^verbatim>\<open>Exception\<close>, the class that
  every handler of the script names; \<open>str e\<close> is what \<^verbatim>\<open>str(e)\<close> returns.
\<close>

datatype exn = Exception (str: string)

text \<open>
  A turn is the dictionary \<^verbatim>\<open>{"role": ..., "content": ...}\<close> that the script builds at
  lines 138, 156, 169 and 173. The role stays a text, since line 56 compares it with
  \<^verbatim>\<open>"user"\<close> and takes every other value as the assistant.
\<close>

record turn =
  role :: string
  content :: string

text \<open>
  The handle returned by \<^verbatim>\<open>generate_content(..., stream=True)\<close> is a lazy sequence that
  is pulled once. Each pull delivers a chunk whose \<^verbatim>\<open>.text\<close> is read, or raises; the end
  of the list is the end of the iteration. Nothing behind a raising pull is ever seen.
\<close>

datatype pull = Chunk string | Raise exn

type_synonym response = "pull list"

text \<open>The model object: its only method used by the script is \<^verbatim>\<open>generate_content\<close>.\<close>

datatype GenerativeModel =
  GenerativeModel (generate_content: "string \<Rightarrow> exn + response")

text \<open>
  The \<^verbatim>\<open>google.generativeai\<close> module as the script uses it: \<^verbatim>\<open>configure(api_key=...)\<close>
  raises or leaves a configured library, whose constructor \<^verbatim>\<open>GenerativeModel(name)\<close>
  raises or returns a model.
\<close>

type_synonym genai = "string \<Rightarrow> exn + (string \<Rightarrow> exn + GenerativeModel)"

text \<open>
  \<^verbatim>\<open>st.session_state\<close> with its five keys, and two ghost fields that record effects:
  \<open>sent\<close> lists the prompts passed to \<^verbatim>\<open>generate_content\<close>, oldest first, and
  \<open>st_error\<close> the messages passed to \<^verbatim>\<open>st.error\<close> at start-up. The other drawing calls
  (titles, chat bubbles, the spinner) change no state and are left out.
\<close>

record world =
  messages :: "turn list"
  gpt_name :: string
  gpt_description :: string
  gpt_instructions :: string
  model :: "GenerativeModel option"
  sent :: "string list"
  st_error :: "string list"

text \<open>
  What the widgets deliver in one run of the script: the values of the three text
  fields of the sidebar, whether the clear button was pressed, and the text submitted
  to \<^verbatim>\<open>st.chat_input\<close> (\<open>None\<close> when nothing was submitted).
\<close>

record inputs =
  name_input :: string
  description_input :: string
  instructions_input :: string
  clear_clicked :: bool
  chat_input :: "string option"

section \<open>Start-up\<close>

definition configure_gemini :: "genai \<Rightarrow> string option \<Rightarrow> exn + GenerativeModel" where
  "configure_gemini genai GEMINI_API_KEY =
     (let api_key = (case GEMINI_API_KEY of None \<Rightarrow> ''your-gemini-api-key-here'' | Some k \<Rightarrow> k)
      in case genai api_key of
           Inl e \<Rightarrow> Inl e
         | Inr configured \<Rightarrow> configured ''gemini-1.5-flash'')"

text \<open>
  \<^verbatim>\<open>initialize_session_state\<close> sets each key that is missing. The keys are written nowhere
  else before it has run, so a browser session has either none of them (\<open>None\<close>, its
  first run) or all five (\<open>Some w\<close>, every later run, where nothing is changed).
\<close>

definition initialize_session_state :: "genai \<Rightarrow> string option \<Rightarrow> world option \<Rightarrow> world" where
  "initialize_session_state genai GEMINI_API_KEY state =
     (case state of
        Some w \<Rightarrow> w
      | None \<Rightarrow>
          (case configure_gemini genai GEMINI_API_KEY of
             Inr m \<Rightarrow>
               \<lparr>messages = [], gpt_name = ''Custom GPT'',
                gpt_description = ''A helpful AI assistant'',
                gpt_instructions = ''You are a helpful AI assistant. Respond to user queries in a helpful and informative manner.'',
                model = Some m, sent = [], st_error = []\<rparr>
           | Inl e \<Rightarrow>
               \<lparr>messages = [], gpt_name = ''Custom GPT'',
                gpt_description = ''A helpful AI assistant'',
                gpt_instructions = ''You are a helpful AI assistant. Respond to user queries in a helpful and informative manner.'',
                model = None, sent = [],
                st_error = [''Failed to configure Gemini API: '' @ str e]\<rparr>))"

section \<open>The fragment stream\<close>

text \<open>
  \<^verbatim>\<open>stream_response\<close> is a generator; the model returns the list of the values it yields.
  A chunk with empty text yields nothing. A raising pull is caught by the handler of line
  42, which yields one message and ends the generator.
\<close>

fun stream_response :: "response \<Rightarrow> string list" where
  "stream_response [] = []"
| "stream_response (Chunk text # response) =
     (if text \<noteq> [] then text # stream_response response else stream_response response)"
| "stream_response (Raise e # response) = [''Error generating response: '' @ str e]"

section \<open>Building the context and calling the model\<close>

text \<open>Python's slice \<^verbatim>\<open>xs[-n:]\<close> for \<open>n > 0\<close>: the last \<open>n\<close> elements, or all of a shorter list.\<close>

definition last_n :: "nat \<Rightarrow> 'a list \<Rightarrow> 'a list" where
  "last_n n xs = drop (length xs - n) xs"

text \<open>The text that one pass of the loop of lines 55 to 57 appends.\<close>

definition history_line :: "turn \<Rightarrow> string" where
  "history_line msg =
     (if role msg = ''user'' then ''Human'' else ''Assistant'') @ '': '' @ content msg @ ''\<newline>''"

text \<open>
  Lines 52 to 61, the part of the \<^verbatim>\<open>try\<close> block that builds \<^verbatim>\<open>conversation_context\<close>.
  On an empty list the slice is empty and \<^verbatim>\<open>messages[-1]\<close> raises \<^verbatim>\<open>IndexError\<close>.
\<close>

definition conversation_context :: "turn list \<Rightarrow> string \<Rightarrow> exn + string" where
  "conversation_context msgs instructions =
     (let ctx = ''Instructions: '' @ instructions @ ''\<newline>\<newline>'';
          ctx = foldl (\<lambda>c msg. c @ history_line msg) ctx (last_n 10 msgs)
      in case msgs of
           [] \<Rightarrow> Inl (Exception ''list index out of range'')
         | _ # _ \<Rightarrow> Inr (ctx @ ''Human: '' @ content (last msgs) @ ''\<newline>Assistant:''))"

text \<open>
  \<^verbatim>\<open>get_ai_response\<close> returns a text (\<open>Inl\<close>) or the stream handle (\<open>Inr\<close>), which is what
  its caller tells apart with \<^verbatim>\<open>isinstance(response_stream, str)\<close>, and the world after
  the call.
\<close>

definition get_ai_response :: "turn list \<Rightarrow> string \<Rightarrow> world \<Rightarrow> (string + response) \<times> world" where
  "get_ai_response msgs instructions w =
     (case model w of
        None \<Rightarrow> (Inl ''Error: Gemini API not configured properly. Please check your API key.'', w)
      | Some m \<Rightarrow>
          (case conversation_context msgs instructions of
             Inl e \<Rightarrow> (Inl (''Error: '' @ str e), w)
           | Inr ctx \<Rightarrow>
               (case generate_content m ctx of
                  Inl e \<Rightarrow> (Inl (''Error: '' @ str e), w\<lparr>sent := sent w @ [ctx]\<rparr>)
                | Inr response \<Rightarrow> (Inr response, w\<lparr>sent := sent w @ [ctx]\<rparr>))))"

section \<open>The script\<close>

text \<open>
  The streaming loop of lines 159 to 169. Its state is the accumulator, the last text
  written to the placeholder and the time slept so far, in milliseconds. The pause is a
  parameter; the script sleeps 0.01 seconds, that is \<open>10\<close>.
\<close>

record rendering =
  full_response :: string
  placeholder :: "string option"
  slept :: nat

definition cursor :: string where
  "cursor = [CHR 0xE2, CHR 0x96, CHR 0x8A]"

fun stream_loop :: "nat \<Rightarrow> string list \<Rightarrow> rendering \<Rightarrow> rendering" where
  "stream_loop pause [] v = v"
| "stream_loop pause (chunk # chunks) v =
     stream_loop pause chunks
       \<lparr>full_response = full_response v @ chunk,
        placeholder = Some (full_response v @ chunk @ cursor),
        slept = slept v + pause\<rparr>"

definition render_stream :: "nat \<Rightarrow> response \<Rightarrow> rendering" where
  "render_stream pause response_stream =
     (let v = stream_loop pause (stream_response response_stream)
                \<lparr>full_response = [], placeholder = None, slept = 0\<rparr>
      in v\<lparr>placeholder := Some (full_response v)\<rparr>)"

text \<open>
  \<^verbatim>\<open>render_chat_interface\<close>: without a submitted text nothing changes. Otherwise the user
  turn is appended, the reply is produced and the assistant turn is appended. The
  handler of line 170 is not a branch of the model: \<^verbatim>\<open>stream_response\<close> has caught every
  exception of the stream before, so the loop it guards does not raise.
\<close>

definition render_chat_interface :: "string option \<Rightarrow> world \<Rightarrow> world" where
  "render_chat_interface prompt w =
     (case prompt of
        None \<Rightarrow> w
      | Some p \<Rightarrow>
          if p = [] then w
          else
            (let w1 = w\<lparr>messages := messages w @ [\<lparr>role = ''user'', content = p\<rparr>]\<rparr>;
                 (response_stream, w2) = get_ai_response (messages w1) (gpt_instructions w1) w1;
                 ai_message =
                   (case response_stream of
                      Inl s \<Rightarrow> \<lparr>role = ''assistant'', content = s\<rparr>
                    | Inr r \<Rightarrow> \<lparr>role = ''assistant'', content = full_response (render_stream 10 r)\<rparr>)
             in w2\<lparr>messages := messages w2 @ [ai_message]\<rparr>))"

text \<open>
  \<^verbatim>\<open>render_sidebar\<close> stores the three text fields; the clear button empties the
  conversation and asks for a rerun, which ends the current run of the script.
\<close>

definition render_sidebar :: "inputs \<Rightarrow> world \<Rightarrow> world \<times> bool" where
  "render_sidebar i w =
     (let w1 = w\<lparr>gpt_name := name_input i,
                 gpt_description := description_input i,
                 gpt_instructions := instructions_input i\<rparr>
      in if clear_clicked i then (w1\<lparr>messages := []\<rparr>, True) else (w1, False))"

definition main :: "genai \<Rightarrow> string option \<Rightarrow> inputs \<Rightarrow> world option \<Rightarrow> world" where
  "main genai GEMINI_API_KEY i state =
     (let w0 = initialize_session_state genai GEMINI_API_KEY state;
          (w1, rerun) = render_sidebar i w0
      in if rerun then w1 else render_chat_interface (chat_input i) w1)"

text \<open>A browser session is a sequence of runs of the script, each on the state the last one left.\<close>

fun runs :: "genai \<Rightarrow> string option \<Rightarrow> inputs list \<Rightarrow> world option \<Rightarrow> world option" where
  "runs genai GEMINI_API_KEY [] state = state"
| "runs genai GEMINI_API_KEY (i # is) state =
     runs genai GEMINI_API_KEY is (Some (main genai GEMINI_API_KEY i state))"

section \<open>Reading a context line by line\<close>

text \<open>
  The definitions of this section are not part of the script. They say what a reader of
  the prompt sees: \<open>split_lines\<close> cuts a text at every newline, as Python's
  \<^verbatim>\<open>s.split("\n")\<close> does, and \<open>line_text\<close> is a history line without its newline.
  A line is role-prefixed when it starts with \<open>Human: \<close> or \<open>Assistant: \<close>, and
  \<open>history_lines_in\<close> counts the role-prefixed lines of a text that come before its last
  two lines, which in a context are the repeated last turn and the closing marker.
\<close>

fun split_lines :: "string \<Rightarrow> string list" where
  "split_lines [] = [[]]"
| "split_lines (c # cs) =
     (if c = CHR ''\<newline>'' then [] # split_lines cs
      else (case split_lines cs of [] \<Rightarrow> [[c]] | l # ls \<Rightarrow> (c # l) # ls))"

definition newline_free :: "string \<Rightarrow> bool" where
  "newline_free s \<longleftrightarrow> CHR ''\<newline>'' \<notin> set s"

definition line_text :: "turn \<Rightarrow> string" where
  "line_text msg = (if role msg = ''user'' then ''Human'' else ''Assistant'') @ '': '' @ content msg"

definition role_prefixed :: "string \<Rightarrow> bool" where
  "role_prefixed l \<longleftrightarrow> take 7 l = ''Human: '' \<or> take 11 l = ''Assistant: ''"

definition history_lines_in :: "string \<Rightarrow> nat" where
  "history_lines_in ctx = length (filter role_prefixed (butlast (butlast (split_lines ctx))))"

section \<open>Example inputs\<close>

text \<open>
  Three models: one streams two fragments whatever the prompt, one fails in the middle
  of the stream, one fails at the call. Then a library whose \<^verbatim>\<open>configure\<close> raises.
\<close>

definition demo_model :: GenerativeModel where
  "demo_model = GenerativeModel (\<lambda>prompt. Inr [Chunk ''Hel'', Chunk ''lo''])"

definition broken_model :: GenerativeModel where
  "broken_model =
     GenerativeModel (\<lambda>prompt. Inr [Chunk ''Hel'', Chunk ''lo'', Raise (Exception ''boom'')])"

definition refusing_model :: GenerativeModel where
  "refusing_model = GenerativeModel (\<lambda>prompt. Inl (Exception ''quota exceeded''))"

definition no_genai :: genai where
  "no_genai = (\<lambda>api_key. Inl (Exception ''invalid API key''))"

text \<open>A session with a model and no turns yet, and one with an earlier exchange.\<close>

definition demo_world :: world where
  "demo_world =
     \<lparr>messages = [], gpt_name = ''Custom GPT'', gpt_description = ''A helpful AI assistant'',
      gpt_instructions = ''Be terse.'', model = Some demo_model, sent = [], st_error = []\<rparr>"

definition chatty_world :: world where
  "chatty_world =
     demo_world\<lparr>messages := [\<lparr>role = ''user'', content = ''secret''\<rparr>,
                             \<lparr>role = ''assistant'', content = ''Hello''\<rparr>]\<rparr>"

text \<open>A conversation of eleven turns, one more than the window holds.\<close>

definition long_chat :: "turn list" where
  "long_chat =
     [\<lparr>role = ''user'', content = ''q1''\<rparr>, \<lparr>role = ''assistant'', content = ''a1''\<rparr>,
      \<lparr>role = ''user'', content = ''q2''\<rparr>, \<lparr>role = ''assistant'', content = ''a2''\<rparr>,
      \<lparr>role = ''user'', content = ''q3''\<rparr>, \<lparr>role = ''assistant'', content = ''a3''\<rparr>,
      \<lparr>role = ''user'', content = ''q4''\<rparr>, \<lparr>role = ''assistant'', content = ''a4''\<rparr>,
      \<lparr>role = ''user'', content = ''q5''\<rparr>, \<lparr>role = ''assistant'', content = ''a5''\<rparr>,
      \<lparr>role = ''user'', content = ''q6''\<rparr>]"

text \<open>Two runs of the script: the user submits a text, the user presses the clear button.\<close>

definition say :: "string \<Rightarrow> inputs" where
  "say p = \<lparr>name_input = ''Custom GPT'', description_input = ''A helpful AI assistant'',
            instructions_input = ''Be terse.'', clear_clicked = False, chat_input = Some p\<rparr>"

definition press_clear :: inputs where
  "press_clear = \<lparr>name_input = ''Custom GPT'', description_input = ''A helpful AI assistant'',
            instructions_input = ''Be terse.'', clear_clicked = True, chat_input = None\<rparr>"

section \<open>Facts about the context\<close>

lemma foldl_history_line:
  "foldl (\<lambda>c msg. c @ history_line msg) c0 ms = c0 @ concat (map history_line ms)"
  by (induction ms arbitrary: c0) simp_all

lemma conversation_context_nonempty:
  "ms \<noteq> [] \<Longrightarrow>
   conversation_context ms instr =
     Inr (''Instructions: '' @ instr @ ''\<newline>\<newline>'' @ concat (map history_line (last_n 10 ms))
          @ ''Human: '' @ content (last ms) @ ''\<newline>Assistant:'')"
  by (cases ms) (simp_all add: conversation_context_def foldl_history_line)

lemma last_n_snoc: "0 < n \<Longrightarrow> last_n n (xs @ [x]) = last_n (n - 1) xs @ [x]"
  by (auto simp: last_n_def)

lemma length_last_n: "length (last_n n xs) = min n (length xs)"
  by (simp add: last_n_def)

lemma set_last_n: "set (last_n n xs) \<subseteq> set xs"
  by (simp add: last_n_def set_drop_subset)

lemma split_lines_line:
  "newline_free a \<Longrightarrow> split_lines (a @ CHR ''\<newline>'' # rest) = a # split_lines rest"
  by (induction a) (auto simp: newline_free_def)

lemma split_lines_last: "newline_free a \<Longrightarrow> split_lines a = [a]"
  by (induction a) (auto simp: newline_free_def)

lemma newline_free_line_text: "newline_free (content t) \<Longrightarrow> newline_free (line_text t)"
  by (simp add: newline_free_def line_text_def)

lemma history_line_text: "history_line t = line_text t @ ''\<newline>''"
  by (simp add: history_line_def line_text_def)

lemma split_lines_history:
  "\<forall>t\<in>set ts. newline_free (content t) \<Longrightarrow>
   split_lines (concat (map history_line ts) @ rest) = map line_text ts @ split_lines rest"
proof (induction ts)
  case Nil
  show ?case by simp
next
  case (Cons t ts)
  then have "newline_free (line_text t)"
    by (simp add: newline_free_line_text)
  then have "split_lines (line_text t @ CHR ''\<newline>'' # (concat (map history_line ts) @ rest))
     = line_text t # split_lines (concat (map history_line ts) @ rest)"
    by (rule split_lines_line)
  moreover have "concat (map history_line (t # ts)) @ rest
     = line_text t @ CHR ''\<newline>'' # (concat (map history_line ts) @ rest)"
    by (simp add: history_line_text)
  moreover have "split_lines (concat (map history_line ts) @ rest) = map line_text ts @ split_lines rest"
    using Cons by simp
  ultimately show ?case
    by simp
qed

lemma role_prefixed_line_text: "role_prefixed (line_text t)"
  by (simp add: role_prefixed_def line_text_def)

lemma filter_role_prefixed_line_text: "filter role_prefixed (map line_text ts) = map line_text ts"
  by (induction ts) (simp_all add: role_prefixed_line_text)

lemma not_role_prefixed_header: "\<not> role_prefixed (''Instructions: '' @ instr)"
  by (simp add: role_prefixed_def)

lemma not_role_prefixed_empty: "\<not> role_prefixed []"
  by (simp add: role_prefixed_def)

lemma line_text_not_marker: "line_text t \<noteq> ''Assistant:''"
  by (simp add: line_text_def)

lemma filter_marker_line_text: "filter (\<lambda>l. l = ''Assistant:'') (map line_text ts) = []"
  by (induction ts) (simp_all add: line_text_not_marker)

lemma last_in_last_n: "ms \<noteq> [] \<Longrightarrow> 0 < n \<Longrightarrow> last ms \<in> set (last_n n ms)"
proof -
  assume ms: "ms \<noteq> []" and n: "0 < n"
  then have lt: "length ms - n < length ms"
    by (cases ms) simp_all
  then have "drop (length ms - n) ms \<noteq> []"
    by simp
  moreover from lt have "last (drop (length ms - n) ms) = last ms"
    by (rule last_drop)
  ultimately show ?thesis
    unfolding last_n_def by (metis last_in_set)
qed

lemma context_split_lines:
  assumes "ms \<noteq> []" and nfi: "newline_free instr"
    and nfw: "\<forall>t\<in>set (last_n 10 ms). newline_free (content t)"
  shows "split_lines (''Instructions: '' @ instr @ ''\<newline>\<newline>''
            @ concat (map history_line (last_n 10 ms))
            @ ''Human: '' @ content (last ms) @ ''\<newline>Assistant:'')
     = (''Instructions: '' @ instr) # [] # map line_text (last_n 10 ms)
             @ [''Human: '' @ content (last ms), ''Assistant:'']"
proof -
  let ?w = "last_n 10 ms"
  let ?ctx = "''Instructions: '' @ instr @ ''\<newline>\<newline>'' @ concat (map history_line ?w)
          @ ''Human: '' @ content (last ms) @ ''\<newline>Assistant:''"
  from assms(1) have "last ms \<in> set ?w"
    by (simp add: last_in_last_n)
  with nfw have l: "newline_free (content (last ms))"
    by blast
  have h: "newline_free (''Instructions: '' @ instr)"
    using nfi by (simp add: newline_free_def)
  have f: "newline_free (''Human: '' @ content (last ms))"
    using l by (simp add: newline_free_def)
  have a: "newline_free ''Assistant:''"
    by (simp add: newline_free_def)
  have "split_lines ?ctx =
     (''Instructions: '' @ instr) # split_lines (CHR ''\<newline>'' # concat (map history_line ?w)
        @ ''Human: '' @ content (last ms) @ ''\<newline>Assistant:'')"
    using split_lines_line [OF h] by simp
  also have "split_lines (CHR ''\<newline>'' # concat (map history_line ?w)
        @ ''Human: '' @ content (last ms) @ ''\<newline>Assistant:'')
     = [] # split_lines (concat (map history_line ?w)
        @ ''Human: '' @ content (last ms) @ ''\<newline>Assistant:'')"
    by simp
  also have "split_lines (concat (map history_line ?w)
        @ ''Human: '' @ content (last ms) @ ''\<newline>Assistant:'')
     = map line_text ?w @ split_lines (''Human: '' @ content (last ms) @ ''\<newline>Assistant:'')"
    using nfw by (rule split_lines_history)
  also have "split_lines (''Human: '' @ content (last ms) @ ''\<newline>Assistant:'')
     = (''Human: '' @ content (last ms)) # split_lines ''Assistant:''"
    using split_lines_line [OF f, of "''Assistant:''"] by simp
  also have "split_lines ''Assistant:'' = [''Assistant:'']"
    using a by (rule split_lines_last)
  finally show ?thesis by simp
qed

lemma butlast_butlast_snoc2: "butlast (butlast (xs @ [a, b])) = xs"
proof -
  have "xs @ [a, b] = (xs @ [a]) @ [b]" by simp
  then have "butlast (xs @ [a, b]) = xs @ [a]"
    by (simp only: butlast_snoc)
  then show ?thesis by simp
qed

lemma butlast_butlast_cons2: "butlast (butlast (a # b # xs @ [c, d])) = a # b # xs"
  using butlast_butlast_snoc2 [of "a # b # xs" c d] by (simp only: append_Cons)

section \<open>Facts about the stream\<close>

lemma stream_loop_full_response:
  "full_response (stream_loop pause chunks v) = full_response v @ concat chunks"
  by (induction chunks arbitrary: v) simp_all

lemma stream_loop_slept:
  "slept (stream_loop pause chunks v) = slept v + pause * length chunks"
  by (induction chunks arbitrary: v) simp_all

lemma stream_response_chunks:
  "stream_response (map Chunk texts @ rest) = filter (\<lambda>t. t \<noteq> []) texts @ stream_response rest"
  by (induction texts) simp_all

lemma concat_filter_nonempty: "concat (filter (\<lambda>t. t \<noteq> []) texts) = concat texts"
  by (induction texts) simp_all

section \<open>Facts about a session without a model\<close>

lemma get_ai_response_no_model:
  "model w = None \<Longrightarrow> get_ai_response ms instr w =
     (Inl ''Error: Gemini API not configured properly. Please check your API key.'', w)"
  by (simp add: get_ai_response_def)

lemma render_chat_interface_no_model:
  "model w = None \<Longrightarrow>
   model (render_chat_interface prompt w) = None \<and> sent (render_chat_interface prompt w) = sent w"
  by (simp add: render_chat_interface_def get_ai_response_no_model Let_def split: option.splits)

lemma main_no_model:
  "model w = None \<Longrightarrow>
   model (main genai key i (Some w)) = None \<and> sent (main genai key i (Some w)) = sent w"
  by (simp add: main_def initialize_session_state_def render_sidebar_def Let_def
      render_chat_interface_no_model)

lemma main_first_run_no_model:
  "configure_gemini genai key = Inl e \<Longrightarrow>
   model (main genai key i None) = None \<and> sent (main genai key i None) = []"
  by (simp add: main_def initialize_session_state_def render_sidebar_def Let_def
      render_chat_interface_no_model)

lemma runs_no_model:
  "model w = None \<Longrightarrow> sent w = [] \<Longrightarrow> runs genai key is (Some w) = Some w' \<Longrightarrow>
   model w' = None \<and> sent w' = []"
proof (induction "is" arbitrary: w)
  case Nil
  then show ?case by simp
next
  case (Cons i "is")
  from Cons.prems(1,2) have "model (main genai key i (Some w)) = None"
    and "sent (main genai key i (Some w)) = []"
    by (simp_all add: main_no_model)
  moreover from Cons.prems(3) have "runs genai key is (Some (main genai key i (Some w))) = Some w'"
    by simp
  ultimately show ?case by (rule Cons.IH)
qed

lemma main_clear:
  "clear_clicked i \<Longrightarrow>
   main genai key i (Some w) =
     w\<lparr>gpt_name := name_input i, gpt_description := description_input i,
       gpt_instructions := instructions_input i, messages := []\<rparr>"
  by (simp add: main_def initialize_session_state_def render_sidebar_def Let_def)

section \<open>The claims\<close>

text \<open>
  C1, as the specification states it, fails: for the instructions \<open>Be terse.\<close> and the
  history of the single user turn \<open>Hi\<close> the context is not
  \<open>Instructions: Be terse.\<newline>\<newline>Human: Hi\<newline>Assistant:\<close>. The loop of line 55 runs over
  the last ten turns, the turn in flight among them, so its line is there before line 61
  appends it once more.
\<close>

theorem context_example_counterexample:
  "conversation_context [\<lparr>role = ''user'', content = ''Hi''\<rparr>] ''Be terse.''
     \<noteq> Inr ''Instructions: Be terse.\<newline>\<newline>Human: Hi\<newline>Assistant:''"
  by (simp add: conversation_context_def last_n_def history_line_def)

text \<open>
  C1, amended: with a configured model, the prompt that \<^verbatim>\<open>get_ai_response\<close> passes to
  \<^verbatim>\<open>generate_content\<close> for a history \<open>ms @ [u]\<close> is the instructions header, one line for
  each of the last ten turns of the history (the last nine of \<open>ms\<close> and then \<open>u\<close> itself,
  the turn in flight), the content of \<open>u\<close> once more behind the marker \<open>Human: \<close>, and the
  marker \<open>Assistant:\<close>. For the example of the specification this is
  \<open>Instructions: Be terse.\<newline>\<newline>Human: Hi\<newline>Human: Hi\<newline>Assistant:\<close>, as the witness shows.
\<close>

theorem get_ai_response_prompt:
  assumes "model w = Some m"
  shows "sent (snd (get_ai_response (ms @ [u]) instr w)) =
     sent w @ [''Instructions: '' @ instr @ ''\<newline>\<newline>''
               @ concat (map history_line (last_n 9 ms)) @ history_line u
               @ ''Human: '' @ content u @ ''\<newline>Assistant:'']"
proof -
  have "conversation_context (ms @ [u]) instr =
     Inr (''Instructions: '' @ instr @ ''\<newline>\<newline>''
               @ concat (map history_line (last_n 9 ms)) @ history_line u
               @ ''Human: '' @ content u @ ''\<newline>Assistant:'')"
    by (simp add: conversation_context_nonempty last_n_snoc)
  with assms show ?thesis
    by (simp add: get_ai_response_def split: sum.splits)
qed

theorem get_ai_response_prompt_witness:
  "model demo_world = Some demo_model \<and>
   sent (snd (get_ai_response [\<lparr>role = ''user'', content = ''Hi''\<rparr>] ''Be terse.'' demo_world)) =
     [''Instructions: Be terse.\<newline>\<newline>Human: Hi\<newline>Human: Hi\<newline>Assistant:'']"
  using get_ai_response_prompt
          [of demo_world demo_model "[]" "\<lparr>role = ''user'', content = ''Hi''\<rparr>" "''Be terse.''"]
  by (simp add: demo_world_def last_n_def history_line_def)

text \<open>
  C2 says that, when the stream raises after fragments have been emitted, the assistant
  turn stored in the conversation is exactly the error text, not the fragments followed by
  it. The script does not do so. For the prompt \<open>Hi\<close> and a stream that delivers \<open>Hel\<close>
  and \<open>lo\<close> and then raises \<open>boom\<close>, \<^verbatim>\<open>stream_response\<close> yields the error text as one
  more value, the loop of line 163 adds it to the accumulator like a fragment, and the
  stored content is \<open>HelloError generating response: boom\<close>. The handler of lines 170 to
  173, which stores the error text alone, is never reached by a failure of the stream.
\<close>

theorem midstream_failure_stored_turn:
  "messages (render_chat_interface (Some ''Hi'') (demo_world\<lparr>model := Some broken_model\<rparr>)) =
     [\<lparr>role = ''user'', content = ''Hi''\<rparr>,
      \<lparr>role = ''assistant'', content = ''HelloError generating response: boom''\<rparr>]"
  by (simp add: render_chat_interface_def get_ai_response_def conversation_context_def
      demo_world_def broken_model_def render_stream_def last_n_def history_line_def Let_def)

text \<open>
  C3, as the specification states it, fails. It speaks of every history that is not
  empty; the script escapes nothing, so a content may bring lines of its own. The
  history of the single user turn with the content \<open>x\<newline>Human: x\<close> gives a context
  with three role-prefixed lines before the repeated last line, not \<open>min 10 1 = 1\<close>.
  It is the very text that the history of three user turns \<open>x\<close> gives, so no count
  taken from the text can be the right one for both.
\<close>

theorem context_line_count_counterexample:
  "conversation_context [\<lparr>role = ''user'', content = ''x\<newline>Human: x''\<rparr>] ''Be terse.'' =
     Inr ''Instructions: Be terse.\<newline>\<newline>Human: x\<newline>Human: x\<newline>Human: x\<newline>Human: x\<newline>Assistant:'' \<and>
   history_lines_in
       ''Instructions: Be terse.\<newline>\<newline>Human: x\<newline>Human: x\<newline>Human: x\<newline>Human: x\<newline>Assistant:''
     \<noteq> min 10 (length [\<lparr>role = ''user'', content = ''x\<newline>Human: x''\<rparr>]) \<and>
   conversation_context [\<lparr>role = ''user'', content = ''x\<newline>Human: x''\<rparr>] ''Be terse.'' =
     conversation_context
       [\<lparr>role = ''user'', content = ''x''\<rparr>, \<lparr>role = ''user'', content = ''x''\<rparr>,
        \<lparr>role = ''user'', content = ''x''\<rparr>] ''Be terse.''"
  by (simp add: conversation_context_def last_n_def history_line_def history_lines_in_def
      role_prefixed_def)

text \<open>
  C3, amended: for a history that is not empty, where neither the instructions nor the
  content of one of the last ten turns holds a newline, the context is the instructions
  header, one line for each of the last ten turns, the line \<open>Human: \<close> with the content
  of the last turn once more, and the marker \<open>Assistant:\<close>. Cut at its newlines it is
  the header line, an empty line, those history lines, the repeated line and the
  marker. So exactly \<open>min 10 (length ms)\<close> role-prefixed lines come before the repeated
  last line, and exactly one line is the marker \<open>Assistant:\<close>, the last one.
\<close>

theorem context_line_count:
  assumes "ms \<noteq> []" and "newline_free instr"
    and "\<forall>t\<in>set (last_n 10 ms). newline_free (content t)"
  shows "\<exists>ctx. conversation_context ms instr = Inr ctx \<and>
       ctx = ''Instructions: '' @ instr @ ''\<newline>\<newline>'' @ concat (map history_line (last_n 10 ms))
          @ ''Human: '' @ content (last ms) @ ''\<newline>Assistant:'' \<and>
       split_lines ctx = (''Instructions: '' @ instr) # [] # map line_text (last_n 10 ms)
             @ [''Human: '' @ content (last ms), ''Assistant:''] \<and>
       history_lines_in ctx = min 10 (length ms) \<and>
       length (filter (\<lambda>l. l = ''Assistant:'') (split_lines ctx)) = 1 \<and>
       last (split_lines ctx) = ''Assistant:''"
proof -
  let ?w = "last_n 10 ms"
  let ?ctx = "''Instructions: '' @ instr @ ''\<newline>\<newline>'' @ concat (map history_line ?w)
          @ ''Human: '' @ content (last ms) @ ''\<newline>Assistant:''"
  let ?final = "''Human: '' @ content (last ms)"
  have ctx: "conversation_context ms instr = Inr ?ctx"
    using assms(1) by (rule conversation_context_nonempty)
  have lines: "split_lines ?ctx = (''Instructions: '' @ instr) # [] # map line_text ?w
             @ [?final, ''Assistant:'']"
    using assms by (rule context_split_lines)
  have "history_lines_in ?ctx = length (filter role_prefixed (butlast (butlast
       ((''Instructions: '' @ instr) # [] # map line_text ?w @ [?final, ''Assistant:'']))))"
    by (simp only: history_lines_in_def lines)
  also have "\<dots> = length (filter role_prefixed ((''Instructions: '' @ instr) # [] # map line_text ?w))"
    by (simp only: butlast_butlast_cons2)
  also have "\<dots> = length (map line_text ?w)"
    by (simp only: filter.simps not_role_prefixed_header not_role_prefixed_empty
        filter_role_prefixed_line_text if_False)
  also have "\<dots> = min 10 (length ms)"
    by (simp add: length_last_n)
  finally have count: "history_lines_in ?ctx = min 10 (length ms)" .
  have one: "length (filter (\<lambda>l. l = ''Assistant:'') (split_lines ?ctx)) = 1"
    by (simp only: lines) (simp add: filter_marker_line_text)
  have lst: "last (split_lines ?ctx) = ''Assistant:''"
    by (simp only: lines) simp
  from ctx lines count one lst show ?thesis by blast
qed

theorem context_line_count_witness:
  "long_chat \<noteq> [] \<and> newline_free ''Be terse.'' \<and>
   list_all (\<lambda>t. newline_free (content t)) (last_n 10 long_chat) \<and>
   conversation_context long_chat ''Be terse.'' =
     Inr ''Instructions: Be terse.\<newline>\<newline>Assistant: a1\<newline>Human: q2\<newline>Assistant: a2\<newline>Human: q3\<newline>Assistant: a3\<newline>Human: q4\<newline>Assistant: a4\<newline>Human: q5\<newline>Assistant: a5\<newline>Human: q6\<newline>Human: q6\<newline>Assistant:'' \<and>
   split_lines ''Instructions: Be terse.\<newline>\<newline>Assistant: a1\<newline>Human: q2\<newline>Assistant: a2\<newline>Human: q3\<newline>Assistant: a3\<newline>Human: q4\<newline>Assistant: a4\<newline>Human: q5\<newline>Assistant: a5\<newline>Human: q6\<newline>Human: q6\<newline>Assistant:'' =
     [''Instructions: Be terse.'', [],
      ''Assistant: a1'', ''Human: q2'', ''Assistant: a2'', ''Human: q3'', ''Assistant: a3'',
      ''Human: q4'', ''Assistant: a4'', ''Human: q5'', ''Assistant: a5'', ''Human: q6'',
      ''Human: q6'', ''Assistant:''] \<and>
   history_lines_in ''Instructions: Be terse.\<newline>\<newline>Assistant: a1\<newline>Human: q2\<newline>Assistant: a2\<newline>Human: q3\<newline>Assistant: a3\<newline>Human: q4\<newline>Assistant: a4\<newline>Human: q5\<newline>Assistant: a5\<newline>Human: q6\<newline>Human: q6\<newline>Assistant:'' = 10 \<and>
   length long_chat = 11"
proof -
  have ne: "long_chat \<noteq> []"
    by (simp add: long_chat_def)
  have nfi: "newline_free ''Be terse.''"
    by (simp add: newline_free_def)
  have nfw: "\<forall>t\<in>set (last_n 10 long_chat). newline_free (content t)"
    by (simp add: long_chat_def last_n_def newline_free_def)
  from context_line_count [OF ne nfi nfw] ne nfi nfw show ?thesis
    by (simp add: long_chat_def last_n_def history_line_def line_text_def list_all_iff)
qed

text \<open>
  C4: when \<^verbatim>\<open>configure_gemini\<close> raises in the first run of the script, the run goes on
  with the model set to \<open>None\<close>. In every state \<open>w\<close> that any sequence of runs of the
  script reaches from there, the model is still \<open>None\<close>, no prompt has been passed to
  \<^verbatim>\<open>generate_content\<close>, and \<^verbatim>\<open>get_ai_response\<close>, on any arguments, returns the fixed
  text and leaves the state as it was.
\<close>

theorem unconfigured_model_fixed_error:
  assumes "configure_gemini genai key = Inl e"
    and "runs genai key is None = Some w"
  shows "model (initialize_session_state genai key None) = None \<and>
     model w = None \<and> sent w = [] \<and>
     get_ai_response ms instr w =
       (Inl ''Error: Gemini API not configured properly. Please check your API key.'', w)"
proof -
  from assms(2) obtain i js where "is": "is = i # js"
    by (cases "is") simp_all
  from assms(1) have first: "model (main genai key i None) = None" "sent (main genai key i None) = []"
    by (simp_all add: main_first_run_no_model)
  from assms(2) "is" have "runs genai key js (Some (main genai key i None)) = Some w"
    by simp
  with first have w: "model w = None \<and> sent w = []"
    by (rule runs_no_model)
  from assms(1) have "model (initialize_session_state genai key None) = None"
    by (simp add: initialize_session_state_def)
  with w show ?thesis
    by (simp add: get_ai_response_no_model)
qed

theorem unconfigured_model_fixed_error_witness:
  "configure_gemini no_genai None = Inl (Exception ''invalid API key'') \<and>
   runs no_genai None [say ''Hi'', say ''again''] None =
     Some \<lparr>messages =
        [\<lparr>role = ''user'', content = ''Hi''\<rparr>,
         \<lparr>role = ''assistant'',
            content = ''Error: Gemini API not configured properly. Please check your API key.''\<rparr>,
         \<lparr>role = ''user'', content = ''again''\<rparr>,
         \<lparr>role = ''assistant'',
            content = ''Error: Gemini API not configured properly. Please check your API key.''\<rparr>],
        gpt_name = ''Custom GPT'', gpt_description = ''A helpful AI assistant'',
        gpt_instructions = ''Be terse.'', model = None, sent = [],
        st_error = [''Failed to configure Gemini API: invalid API key'']\<rparr> \<and>
   fst (get_ai_response [\<lparr>role = ''user'', content = ''Hi''\<rparr>] ''Be terse.''
         (the (runs no_genai None [say ''Hi'', say ''again''] None)))
     = Inl ''Error: Gemini API not configured properly. Please check your API key.''"
proof -
  have cfg: "configure_gemini no_genai None = Inl (Exception ''invalid API key'')"
    by (simp add: configure_gemini_def no_genai_def)
  have run: "runs no_genai None [say ''Hi'', say ''again''] None =
     Some \<lparr>messages =
        [\<lparr>role = ''user'', content = ''Hi''\<rparr>,
         \<lparr>role = ''assistant'',
            content = ''Error: Gemini API not configured properly. Please check your API key.''\<rparr>,
         \<lparr>role = ''user'', content = ''again''\<rparr>,
         \<lparr>role = ''assistant'',
            content = ''Error: Gemini API not configured properly. Please check your API key.''\<rparr>],
        gpt_name = ''Custom GPT'', gpt_description = ''A helpful AI assistant'',
        gpt_instructions = ''Be terse.'', model = None, sent = [],
        st_error = [''Failed to configure Gemini API: invalid API key'']\<rparr>"
    by (simp add: main_def initialize_session_state_def cfg render_sidebar_def say_def
        render_chat_interface_def get_ai_response_def Let_def)
  from unconfigured_model_fixed_error
         [OF cfg run, of "[\<lparr>role = ''user'', content = ''Hi''\<rparr>]" "''Be terse.''"] cfg run
  show ?thesis by simp
qed

text \<open>
  C5: for a stream that delivers the fragments \<open>texts\<close> and ends without a failure, the
  accumulator of the streaming loop is, at the end, the concatenation of the fragments in
  their order, whatever the pause between two emissions. The pause only shows in the
  time slept: one pause for each fragment that is not empty.
\<close>

theorem stream_accumulates_fragments:
  "full_response (render_stream pause (map Chunk texts)) = concat texts \<and>
   slept (render_stream pause (map Chunk texts)) = pause * length (filter (\<lambda>t. t \<noteq> []) texts)"
  using stream_response_chunks [of texts "[]"]
  by (simp add: render_stream_def Let_def stream_loop_full_response stream_loop_slept
      concat_filter_nonempty)

theorem stream_accumulates_fragments_witness:
  "full_response (render_stream 10 (map Chunk [''Hel'', [], ''lo''])) = ''Hello'' \<and>
   slept (render_stream 10 (map Chunk [''Hel'', [], ''lo''])) = 20"
  using stream_accumulates_fragments [of 10 "[''Hel'', [], ''lo'']"] by simp

text \<open>
  C6: when the stream raises \<open>e\<close> after delivering the fragments \<open>texts\<close>,
  \<^verbatim>\<open>stream_response\<close> yields the fragments that are not empty, then the one message
  \<open>Error generating response: \<close> followed by \<open>str e\<close>, and nothing more: whatever the
  stream would have delivered behind the failure (\<open>rest\<close>) is not pulled.
\<close>

theorem stream_response_failure_terminal:
  "stream_response (map Chunk texts @ Raise e # rest) =
     filter (\<lambda>t. t \<noteq> []) texts @ [''Error generating response: '' @ str e]"
  by (simp add: stream_response_chunks)

theorem stream_response_failure_terminal_witness:
  "stream_response [Chunk ''Hel'', Chunk ''lo'', Raise (Exception ''boom''), Chunk ''more'']
     = [''Hel'', ''lo'', ''Error generating response: boom'']"
  using stream_response_failure_terminal [of "[''Hel'', ''lo'']" "Exception ''boom''" "[Chunk ''more'']"]
  by simp

text \<open>
  C7: with a configured model, when the \<^verbatim>\<open>try\<close> block of \<^verbatim>\<open>get_ai_response\<close> raises \<open>e\<close>,
  be it while the context is built or in the call of \<^verbatim>\<open>generate_content\<close>, the function
  returns the text \<open>Error: \<close> followed by \<open>str e\<close>.
\<close>

theorem invocation_failure_wrapped:
  assumes "model w = Some m"
    and "conversation_context ms instr = Inl e \<or>
         (\<exists>ctx. conversation_context ms instr = Inr ctx \<and> generate_content m ctx = Inl e)"
  shows "fst (get_ai_response ms instr w) = Inl (''Error: '' @ str e)"
  using assms by (auto simp: get_ai_response_def)

theorem invocation_failure_wrapped_witness:
  "model (demo_world\<lparr>model := Some refusing_model\<rparr>) = Some refusing_model \<and>
   conversation_context [\<lparr>role = ''user'', content = ''Hi''\<rparr>] ''Be terse.''
     = Inr ''Instructions: Be terse.\<newline>\<newline>Human: Hi\<newline>Human: Hi\<newline>Assistant:'' \<and>
   generate_content refusing_model
       ''Instructions: Be terse.\<newline>\<newline>Human: Hi\<newline>Human: Hi\<newline>Assistant:''
     = Inl (Exception ''quota exceeded'') \<and>
   fst (get_ai_response [\<lparr>role = ''user'', content = ''Hi''\<rparr>] ''Be terse.''
          (demo_world\<lparr>model := Some refusing_model\<rparr>))
     = Inl ''Error: quota exceeded''"
proof -
  have m: "model (demo_world\<lparr>model := Some refusing_model\<rparr>) = Some refusing_model"
    by simp
  have c: "conversation_context [\<lparr>role = ''user'', content = ''Hi''\<rparr>] ''Be terse.''
     = Inr ''Instructions: Be terse.\<newline>\<newline>Human: Hi\<newline>Human: Hi\<newline>Assistant:''"
    by (simp add: conversation_context_def last_n_def history_line_def)
  have g: "generate_content refusing_model
       ''Instructions: Be terse.\<newline>\<newline>Human: Hi\<newline>Human: Hi\<newline>Assistant:''
     = Inl (Exception ''quota exceeded'')"
    by (simp add: refusing_model_def)
  from c g have "conversation_context [\<lparr>role = ''user'', content = ''Hi''\<rparr>] ''Be terse.''
         = Inl (Exception ''quota exceeded'') \<or>
       (\<exists>ctx. conversation_context [\<lparr>role = ''user'', content = ''Hi''\<rparr>] ''Be terse.'' = Inr ctx
          \<and> generate_content refusing_model ctx = Inl (Exception ''quota exceeded''))"
    by simp
  from invocation_failure_wrapped [OF m this] m c g show ?thesis by simp
qed

text \<open>
  C8: a run of the script in which the clear button is pressed leaves the conversation
  empty, and what the turns were before has no influence on anything that follows:
  whatever runs \<open>js\<close> come after the reset, the state they lead to, the prompts sent
  among it, is the same for every conversation \<open>old\<close> that was there before the reset.
  In the witness the conversation held the text \<open>secret\<close>; the prompt of the first turn
  after the reset is built from that turn alone.
\<close>

theorem clear_conversation_forgets:
  assumes "clear_clicked i"
  shows "messages (main genai key i (Some w)) = [] \<and>
     runs genai key js (Some (main genai key i (Some (w\<lparr>messages := old\<rparr>))))
       = runs genai key js (Some (main genai key i (Some w)))"
  using assms by (simp add: main_clear)

theorem clear_conversation_forgets_witness:
  "clear_clicked press_clear \<and>
   messages (main no_genai None press_clear (Some chatty_world)) = [] \<and>
   runs no_genai None [say ''Hi''] (Some (main no_genai None press_clear (Some chatty_world)))
     = runs no_genai None [say ''Hi''] (Some (main no_genai None press_clear (Some demo_world))) \<and>
   sent (the (runs no_genai None [say ''Hi'']
                (Some (main no_genai None press_clear (Some chatty_world)))))
     = [''Instructions: Be terse.\<newline>\<newline>Human: Hi\<newline>Human: Hi\<newline>Assistant:'']"
proof -
  have c: "clear_clicked press_clear"
    by (simp add: press_clear_def)
  have d: "chatty_world\<lparr>messages := []\<rparr> = demo_world"
    by (simp add: chatty_world_def demo_world_def)
  have s: "sent (the (runs no_genai None [say ''Hi'']
                (Some (main no_genai None press_clear (Some demo_world)))))
     = [''Instructions: Be terse.\<newline>\<newline>Human: Hi\<newline>Human: Hi\<newline>Assistant:'']"
    by (simp add: main_def initialize_session_state_def render_sidebar_def press_clear_def
        say_def demo_world_def demo_model_def render_chat_interface_def get_ai_response_def
        conversation_context_def last_n_def history_line_def Let_def)
  from clear_conversation_forgets [OF c, of no_genai None chatty_world "[say ''Hi'']" "[]"] c s
  show ?thesis by (simp add: d)
qed

text \<open>
  C9: with a configured model and an empty list of messages, \<^verbatim>\<open>get_ai_response\<close>
  returns a text, the wrapped \<^verbatim>\<open>IndexError\<close> of \<^verbatim>\<open>messages[-1]\<close>, and \<^verbatim>\<open>generate_content\<close>
  is not called.
\<close>

theorem empty_history_error_string:
  assumes "model w = Some m"
  shows "get_ai_response [] instr w = (Inl ''Error: list index out of range'', w)"
  using assms by (simp add: get_ai_response_def conversation_context_def)

theorem empty_history_error_string_witness:
  "model demo_world = Some demo_model \<and>
   get_ai_response [] ''Be terse.'' demo_world = (Inl ''Error: list index out of range'', demo_world)"
  using empty_history_error_string [of demo_world demo_model "''Be terse.''"]
  by (simp add: demo_world_def)

text \<open>
  C10: \<^verbatim>\<open>get_ai_response\<close> writes to none of the keys of the session. After the call, on
  any arguments and whatever it returns, the conversation and the instructions are
  what they were before, and so are the name, the description and the model. Only the
  record of the prompts sent may have grown.
\<close>

theorem get_ai_response_frame:
  "messages (snd (get_ai_response ms instr w)) = messages w \<and>
   gpt_instructions (snd (get_ai_response ms instr w)) = gpt_instructions w \<and>
   gpt_name (snd (get_ai_response ms instr w)) = gpt_name w \<and>
   gpt_description (snd (get_ai_response ms instr w)) = gpt_description w \<and>
   model (snd (get_ai_response ms instr w)) = model w"
  by (simp add: get_ai_response_def split: option.splits sum.splits)

theorem get_ai_response_frame_witness:
  "messages (snd (get_ai_response (messages chatty_world) (gpt_instructions chatty_world) chatty_world))
     = [\<lparr>role = ''user'', content = ''secret''\<rparr>, \<lparr>role = ''assistant'', content = ''Hello''\<rparr>] \<and>
   gpt_instructions
     (snd (get_ai_response (messages chatty_world) (gpt_instructions chatty_world) chatty_world))
     = ''Be terse.''"
  using get_ai_response_frame [of "messages chatty_world" "gpt_instructions chatty_world" chatty_world]
  by (simp add: chatty_world_def demo_world_def)

end
